theory Spec2Isabelle
  imports Complex_Main
begin

section \<open>Numeric values of the tensor runtime\<close>

text \<open>
  Tensor entries are modelled in exact arithmetic: a finite entry is a real number, and
  the three special values of the runtime's floating-point numbers are kept as
  constructors of their own, so that a division by zero is a value of the model and not
  the \<open>0\<close> that HOL's total division would give. Rounding and the sign of zero are
  not modelled (every zero is taken as \<open>+0\<close>).
\<close>

datatype fval = Fin real | PInf | NInf | NaN

fun fadd :: "fval \<Rightarrow> fval \<Rightarrow> fval" where
  "fadd NaN _ = NaN"
| "fadd _ NaN = NaN"
| "fadd PInf NInf = NaN"
| "fadd NInf PInf = NaN"
| "fadd PInf _ = PInf"
| "fadd _ PInf = PInf"
| "fadd NInf _ = NInf"
| "fadd _ NInf = NInf"
| "fadd (Fin a) (Fin b) = Fin (a + b)"

fun fdiv :: "fval \<Rightarrow> fval \<Rightarrow> fval" where
  "fdiv NaN _ = NaN"
| "fdiv _ NaN = NaN"
| "fdiv (Fin a) (Fin b) =
     (if b = 0 then (if 0 < a then PInf else if a < 0 then NInf else NaN)
      else Fin (a / b))"
| "fdiv (Fin a) _ = Fin 0"
| "fdiv PInf (Fin b) = (if b < 0 then NInf else PInf)"
| "fdiv NInf (Fin b) = (if b < 0 then PInf else NInf)"
| "fdiv _ _ = NaN"

primrec fsum :: "fval list \<Rightarrow> fval" where
  "fsum [] = Fin 0"
| "fsum (v # vs) = fadd v (fsum vs)"

definition is_finite :: "fval \<Rightarrow> bool" where
  "is_finite v = (case v of Fin _ \<Rightarrow> True | _ \<Rightarrow> False)"

section \<open>Tensors\<close>

text \<open>
  A tensor is its shape and its entries in row-major order, as a contiguous tensor of the
  runtime stores them. A shape may hold a zero, so an empty Time, Batch or Features axis
  keeps the sizes of the other axes.
\<close>

record tensor =
  shape :: "nat list"
  elems :: "fval list"

definition wf_tensor :: "tensor \<Rightarrow> bool" where
  "wf_tensor t = (length (elems t) = prod_list (shape t))"

fun ravel :: "nat list \<Rightarrow> nat list \<Rightarrow> nat" where
  "ravel (n # ns) (i # is) = i * prod_list ns + ravel ns is"
| "ravel _ _ = 0"

fun unravel :: "nat list \<Rightarrow> nat \<Rightarrow> nat list" where
  "unravel [] k = []"
| "unravel (n # ns) k = k div prod_list ns # unravel ns (k mod prod_list ns)"

definition entry :: "tensor \<Rightarrow> nat list \<Rightarrow> fval" where
  "entry t idx = elems t ! ravel (shape t) idx"

datatype error = IndexError | RuntimeError | AttributeError

text \<open>\<^verbatim>\<open>t.sum(0)\<close>: the sum along the first axis, which the result drops. A tensor
  of rank 0 is summed to itself.\<close>

definition sum0 :: "tensor \<Rightarrow> tensor" where
  "sum0 t =
     (case shape t of
        [] \<Rightarrow> t
      | n # ns \<Rightarrow>
          \<lparr>shape = ns,
           elems = map (\<lambda>j. fsum (map (\<lambda>i. elems t ! (i * prod_list ns + j)) [0..<n]))
                       [0..<prod_list ns]\<rparr>)"

text \<open>\<^verbatim>\<open>t.mean(0)\<close>: the sum along the first axis divided by the size of that axis.\<close>

definition mean0 :: "tensor \<Rightarrow> tensor" where
  "mean0 t =
     (case shape t of
        [] \<Rightarrow> t
      | n # ns \<Rightarrow>
          \<lparr>shape = ns, elems = map (\<lambda>v. fdiv v (Fin (real n))) (elems (sum0 t))\<rparr>)"

text \<open>\<^verbatim>\<open>t.unsqueeze(d)\<close> for \<open>d \<ge> 0\<close>: a new axis of size one at position \<open>d\<close>;
  the runtime raises IndexError when \<open>d\<close> exceeds the rank.\<close>

definition unsqueeze :: "tensor \<Rightarrow> nat \<Rightarrow> error + tensor" where
  "unsqueeze t d =
     (if d \<le> length (shape t)
      then Inr (t\<lparr>shape := take d (shape t) @ 1 # drop d (shape t)\<rparr>)
      else Inl IndexError)"

text \<open>Broadcasting: the shapes are aligned at their last axis; two sizes are
  compatible when they are equal or one of them is one.\<close>

fun bcast_rev :: "nat list \<Rightarrow> nat list \<Rightarrow> nat list option" where
  "bcast_rev [] ys = Some ys"
| "bcast_rev xs [] = Some xs"
| "bcast_rev (x # xs) (y # ys) =
     (if x = y \<or> y = 1 then map_option ((#) x) (bcast_rev xs ys)
      else if x = 1 then map_option ((#) y) (bcast_rev xs ys)
      else None)"

definition broadcast_shapes :: "nat list \<Rightarrow> nat list \<Rightarrow> nat list option" where
  "broadcast_shapes a b = map_option rev (bcast_rev (rev a) (rev b))"

text \<open>The offset, in an operand of shape \<open>si\<close>, of the entry that position \<open>k\<close> of
  the broadcast result of shape \<open>so\<close> reads: an axis of size one is read at index 0.\<close>

definition src_index :: "nat list \<Rightarrow> nat list \<Rightarrow> nat \<Rightarrow> nat" where
  "src_index si so k =
     ravel si (map2 (\<lambda>d i. if d = 1 then 0 else i) si
                    (drop (length so - length si) (unravel so k)))"

text \<open>\<^verbatim>\<open>a / b\<close>: element-wise true division with broadcasting; the runtime raises
  RuntimeError when the shapes cannot be broadcast.\<close>

definition tdiv :: "tensor \<Rightarrow> tensor \<Rightarrow> error + tensor" where
  "tdiv a b =
     (case broadcast_shapes (shape a) (shape b) of
        None \<Rightarrow> Inl RuntimeError
      | Some s \<Rightarrow>
          Inr \<lparr>shape = s,
               elems = map (\<lambda>k. fdiv (elems a ! src_index (shape a) s k)
                                     (elems b ! src_index (shape b) s k))
                           [0..<prod_list s]\<rparr>)"

section \<open>The two functions of \<^verbatim>\<open>nmtpytorch/utils/nn.py\<close>\<close>

text \<open>The values \<^verbatim>\<open>get_rnn_hidden_state\<close> can be handed: a tensor, a tuple of
  values, or \<^verbatim>\<open>None\<close>.\<close>

datatype pyobj = PTensor tensor | PTuple "pyobj list" | PNone

text \<open>\<^verbatim>\<open>t[i]\<close> on a tuple, for \<open>i \<ge> 0\<close>.\<close>

definition tuple_getitem :: "pyobj list \<Rightarrow> nat \<Rightarrow> error + pyobj" where
  "tuple_getitem xs i = (if i < length xs then Inr (xs ! i) else Inl IndexError)"

text \<open>\<^verbatim>\<open>return h if not isinstance(h, tuple) else h[0]\<close>\<close>

definition get_rnn_hidden_state :: "pyobj \<Rightarrow> error + pyobj" where
  "get_rnn_hidden_state h =
     (case h of
        PTuple xs \<Rightarrow> tuple_getitem xs 0
      | _ \<Rightarrow> Inr h)"

text \<open>
  \<^verbatim>\<open>x, mask = data\<close>
  \<^verbatim>\<open>if mask is not None: return x.sum(0) / mask.sum(0).unsqueeze(1)\<close>
  \<^verbatim>\<open>else: return x.mean(0)\<close>
\<close>

fun mean_pool :: "tensor \<times> tensor option \<Rightarrow> error + tensor" where
  "mean_pool (x, Some msk) =
     (case unsqueeze (sum0 msk) 1 of
        Inl e \<Rightarrow> Inl e
      | Inr m \<Rightarrow> tdiv (sum0 x) m)"
| "mean_pool (x, None) = Inr (mean0 x)"

section \<open>The hidden-state extractor\<close>

text \<open>C4. Handed a pair \<open>(a, b)\<close> of tensors, the extractor returns the first
  component \<open>a\<close>, whatever the second one is.\<close>

theorem get_rnn_hidden_state_pair:
  "get_rnn_hidden_state (PTuple [PTensor a, PTensor b]) = Inr (PTensor a)"
  by (simp add: get_rnn_hidden_state_def tuple_getitem_def)

text \<open>C5. Handed a single tensor \<open>h\<close> (a value that is not a tuple), the extractor
  returns \<open>h\<close> itself.\<close>

theorem get_rnn_hidden_state_tensor:
  "get_rnn_hidden_state (PTensor h) = Inr (PTensor h)"
  by (simp add: get_rnn_hidden_state_def)

text \<open>C10. The extractor tests only that its argument is a tuple, not that it has two
  components: a tuple of any length from one on yields its first component.\<close>

theorem get_rnn_hidden_state_any_tuple:
  "get_rnn_hidden_state (PTuple (a # rest)) = Inr a"
  by (simp add: get_rnn_hidden_state_def tuple_getitem_def)

end
